theory Spec2Isabelle
  imports Main
begin

section \<open>Syntax trees of a hooks file\<close>

text \<open>
  The functions of \<^verbatim>\<open>packages/core/tooling/js/kit.ts\<close> edit a syntax tree in place and
  compare statement nodes by reference (\<^verbatim>\<open>n !== originalHandleDecl\<close>). The model keeps
  that: every statement node lives in a store, a statement is named by its address, and
  the program body is the list of the addresses of its top-level statements. The
  declaration of an \<^verbatim>\<open>export\<close> statement is an address too, so that the alias between
  \<^verbatim>\<open>exportDecl.declaration\<close> and \<^verbatim>\<open>originalHandleDecl\<close> is the alias of the code.
  Expressions and declarators are values: the code never shares one between two nodes.
\<close>

type_synonym addr = nat

datatype expr =
    Identifier string
  | CallExpression expr "expr list"
  | OtherExpression string

record declarator =
  d_id :: expr
  d_init :: "expr option"
  d_typeAnnotation :: "string option"

record specifier =
  s_local :: "string option"
  s_exported :: string

datatype node =
    VariableDeclaration string "declarator list"
  | FunctionDeclaration "string option" "expr list"
  | ExportNamedDeclaration "specifier list" "addr option"
  | ImportDeclaration string bool "(string \<times> string) list"
  | OtherStatement "expr list"

record program =
  heap :: "node list"
  body :: "addr list"

text \<open>
  \<^verbatim>\<open>VariableDeclaration kind declarations\<close>; \<^verbatim>\<open>FunctionDeclaration id rest\<close>, the rest of
  the function kept as the expressions of its parameters and body;
  \<^verbatim>\<open>ExportNamedDeclaration specifiers declaration\<close>; \<^verbatim>\<open>ImportDeclaration source typeOnly
  specifiers\<close>, a specifier being the imported and the local name; any other statement is
  kept as the expressions below it. Statements nest only through the declaration of an
  export, so the export statements a walk of the program meets are those of the body,
  in source order.
\<close>

definition wf_program :: "program \<Rightarrow> bool" where
  "wf_program ast \<longleftrightarrow>
     list_all (\<lambda>a. a < length (heap ast)) (body ast) \<and>
     list_all (\<lambda>n. case n of
                      ExportNamedDeclaration specs (Some d) \<Rightarrow> d < length (heap ast)
                    | _ \<Rightarrow> True) (heap ast)"

text \<open>A new node gets the next free address; \<^verbatim>\<open>ast.body.push(...)\<close> appends addresses.\<close>

definition alloc :: "program \<Rightarrow> node \<Rightarrow> program \<times> addr" where
  "alloc ast n = (ast\<lparr>heap := heap ast @ [n]\<rparr>, length (heap ast))"

definition push :: "program \<Rightarrow> addr list \<Rightarrow> program" where
  "push ast as = ast\<lparr>body := body ast @ as\<rparr>"

definition store :: "program \<Rightarrow> addr \<Rightarrow> node \<Rightarrow> program" where
  "store ast a n = ast\<lparr>heap := (heap ast)[a := n]\<rparr>"

subsection \<open>What the printer sees\<close>

text \<open>
  The printer (\<^verbatim>\<open>serializeScript\<close>, a call of recast's \<^verbatim>\<open>print\<close>) is a function of the
  tree below the program node. The model prints a program as that tree, with every
  address replaced by the statement it names.
\<close>

datatype statement =
    SVariableDeclaration string "declarator list"
  | SFunctionDeclaration "string option" "expr list"
  | SExportNamedDeclaration "specifier list" "statement option"
  | SImportDeclaration string bool "(string \<times> string) list"
  | SOtherStatement "expr list"

definition printDeclaration :: "node \<Rightarrow> statement" where
  "printDeclaration n =
     (case n of
        VariableDeclaration k ds \<Rightarrow> SVariableDeclaration k ds
      | FunctionDeclaration f r \<Rightarrow> SFunctionDeclaration f r
      | ExportNamedDeclaration specs d \<Rightarrow> SExportNamedDeclaration specs None
      | ImportDeclaration s t specs \<Rightarrow> SImportDeclaration s t specs
      | OtherStatement s \<Rightarrow> SOtherStatement s)"

definition printStatement :: "node list \<Rightarrow> addr \<Rightarrow> statement" where
  "printStatement h a =
     (case h ! a of
        ExportNamedDeclaration specs d \<Rightarrow>
          SExportNamedDeclaration specs (map_option (\<lambda>d. printDeclaration (h ! d)) d)
      | n \<Rightarrow> printDeclaration n)"

definition serializeScript :: "program \<Rightarrow> statement list" where
  "serializeScript ast = map (printStatement (heap ast)) (body ast)"

section \<open>Node builders\<close>

text \<open>
  Modelled from the spec: the node builders of \<^verbatim>\<open>../js/index.ts\<close> (\<^verbatim>\<open>variables\<close>,
  \<^verbatim>\<open>functions\<close>, \<^verbatim>\<open>exports\<close>, \<^verbatim>\<open>imports\<close>, \<^verbatim>\<open>common\<close>) are not among the sources. The spec
  gives them as constructors of well-formed fragment nodes: build-declaration(kind, name,
  initializer), build-call(calleeName, argumentNames), build-identifier(name),
  build-export(name, declaration), build-import(moduleSpecifier, namedBindings,
  isTypeOnly) and attach-type-annotation(declarator, typeName), which mutates the
  declarator in place.
\<close>

definition variables_identifier :: "string \<Rightarrow> expr" where
  "variables_identifier name = Identifier name"

definition callByIdentifier :: "string \<Rightarrow> string list \<Rightarrow> expr" where
  "callByIdentifier callee args = CallExpression (Identifier callee) (map Identifier args)"

text \<open>
  Modelled from the spec: \<^verbatim>\<open>variables.declaration\<close> builds a declaration node
  \<^verbatim>\<open>kind name = value\<close>; being a new node, it has a new address.
\<close>

definition variables_declaration :: "program \<Rightarrow> string \<Rightarrow> string \<Rightarrow> expr \<Rightarrow> program \<times> addr" where
  "variables_declaration ast kind name val =
     alloc ast (VariableDeclaration kind
       [\<lparr>d_id = Identifier name, d_init = Some val, d_typeAnnotation = None\<rparr>])"

text \<open>
  Modelled from the spec: \<^verbatim>\<open>variables.typeAnnotateDeclarator\<close> attaches the type name
  to the declarator. The code applies it to \<^verbatim>\<open>decl.declarations[0]\<close> of a declaration
  it has just built, which \<open>annotateFirst\<close> writes back to the node.
\<close>

definition typeAnnotateDeclarator :: "declarator \<Rightarrow> string \<Rightarrow> declarator" where
  "typeAnnotateDeclarator d t = d\<lparr>d_typeAnnotation := Some t\<rparr>"

definition annotateFirst :: "program \<Rightarrow> addr \<Rightarrow> string \<Rightarrow> program" where
  "annotateFirst ast a t =
     (case heap ast ! a of
        VariableDeclaration k (d # ds) \<Rightarrow>
          store ast a (VariableDeclaration k (typeAnnotateDeclarator d t # ds))
      | _ \<Rightarrow> ast)"

text \<open>
  Modelled from the spec: \<^verbatim>\<open>exports.namedExport(ast, name, decl)\<close> builds the export
  wrapper of the declaration and emits it: the code uses no result of the call and
  pushes nothing itself after it, so the wrapper is appended to the body by the call.
\<close>

definition namedExport :: "program \<Rightarrow> string \<Rightarrow> addr \<Rightarrow> program" where
  "namedExport ast name decl =
     (let (ast', e) = alloc ast (ExportNamedDeclaration [] (Some decl))
      in push ast' [e])"

text \<open>
  Modelled from the spec: \<^verbatim>\<open>imports.addNamed(ast, source, bindings, isType)\<close> adds an
  import of the named bindings from the module. No node is duplicated by a merge, so
  an import statement of that module and kind that is already in the body receives the
  bindings it lacks, and only when there is none is a new import statement built; it is
  placed first in the body.
\<close>

definition isImportOf :: "string \<Rightarrow> bool \<Rightarrow> node \<Rightarrow> bool" where
  "isImportOf source isType n =
     (case n of ImportDeclaration s t specs \<Rightarrow> s = source \<and> t = isType | _ \<Rightarrow> False)"

definition addNamed :: "program \<Rightarrow> string \<Rightarrow> (string \<times> string) list \<Rightarrow> bool \<Rightarrow> program" where
  "addNamed ast source bindings isType =
     (case find (\<lambda>a. isImportOf source isType (heap ast ! a)) (body ast) of
        Some a \<Rightarrow>
          (case heap ast ! a of
             ImportDeclaration s t specs \<Rightarrow>
               store ast a (ImportDeclaration s t
                 (specs @ filter (\<lambda>b. b \<notin> set specs) bindings))
           | _ \<Rightarrow> ast)
      | None \<Rightarrow>
          (let (ast', i) = alloc ast (ImportDeclaration source isType bindings)
           in ast'\<lparr>body := i # body ast'\<rparr>))"

text \<open>
  Modelled from the spec: \<^verbatim>\<open>common.hasNode(ast, node)\<close> is the structural-equality check
  of the merge planner: some expression node of the tree equals the new fragment's
  expression. The expression nodes of the tree are the targets and initialisers of
  its declarators, the expressions of its functions and other statements, and
  everything below them; the names of functions, imports and export specifiers are
  kept as strings and are not compared.
\<close>

fun subexpressions :: "expr \<Rightarrow> expr list" where
  "subexpressions (CallExpression f args) =
     CallExpression f args # subexpressions f @ concat (map subexpressions args)"
| "subexpressions e = [e]"

definition declaratorExpressions :: "declarator \<Rightarrow> expr list" where
  "declaratorExpressions d =
     subexpressions (d_id d) @
     (case d_init d of Some e \<Rightarrow> subexpressions e | None \<Rightarrow> [])"

fun statementExpressions :: "statement \<Rightarrow> expr list" where
  "statementExpressions (SVariableDeclaration k ds) = concat (map declaratorExpressions ds)"
| "statementExpressions (SFunctionDeclaration f es) = concat (map subexpressions es)"
| "statementExpressions (SExportNamedDeclaration specs (Some d)) = statementExpressions d"
| "statementExpressions (SExportNamedDeclaration specs None) = []"
| "statementExpressions (SImportDeclaration s t specs) = []"
| "statementExpressions (SOtherStatement es) = concat (map subexpressions es)"

definition hasNode :: "program \<Rightarrow> expr \<Rightarrow> bool" where
  "hasNode ast e \<longleftrightarrow> e \<in> set (concat (map statementExpressions (serializeScript ast)))"

section \<open>The hook-handle merge\<close>

text \<open>
  A visitor of a walk overwrites the variable it assigns, so of the nodes it accepts the
  last one stays.
\<close>

definition lastMatch :: "('a \<Rightarrow> bool) \<Rightarrow> 'a list \<Rightarrow> 'a option" where
  "lastMatch P xs = (case filter P xs of [] \<Rightarrow> None | y # ys \<Rightarrow> Some (last (y # ys)))"

subsection \<open>The predicates at the end of kit.ts\<close>

definition usingSequence :: "declarator \<Rightarrow> string \<Rightarrow> bool" where
  "usingSequence d handleName \<longleftrightarrow>
     d_id d = Identifier handleName \<and>
     (case d_init d of
        Some (CallExpression (Identifier c) args) \<Rightarrow> c = ''sequence''
      | _ \<Rightarrow> False)"

definition isHandleDeclarator :: "string \<Rightarrow> declarator \<Rightarrow> bool" where
  "isHandleDeclarator handleName d \<longleftrightarrow> d_id d = Identifier handleName"

definition getVariableDeclarator :: "node \<Rightarrow> string \<Rightarrow> declarator option" where
  "getVariableDeclarator n handleName =
     (case n of
        VariableDeclaration k ds \<Rightarrow> find (isHandleDeclarator handleName) ds
      | _ \<Rightarrow> None)"

definition isVariableDeclaration :: "node \<Rightarrow> string \<Rightarrow> bool" where
  "isVariableDeclaration n variableName \<longleftrightarrow>
     (case n of
        VariableDeclaration k ds \<Rightarrow> getVariableDeclarator n variableName \<noteq> None
      | _ \<Rightarrow> False)"

definition isFunctionDeclaration :: "node \<Rightarrow> string \<Rightarrow> bool" where
  "isFunctionDeclaration n funcName \<longleftrightarrow>
     (case n of FunctionDeclaration f r \<Rightarrow> f = Some funcName | _ \<Rightarrow> False)"

subsection \<open>The walk over the named exports (lines 69 to 111)\<close>

record finding =
  isSpecifier :: bool
  handleName :: string
  exportDecl :: "addr option"
  originalHandleDecl :: "addr option"

definition noFinding :: finding where
  "noFinding = \<lparr>isSpecifier = False, handleName = ''handle'',
                exportDecl = None, originalHandleDecl = None\<rparr>"

definition isHandleDecl :: "program \<Rightarrow> string \<Rightarrow> addr option \<Rightarrow> bool" where
  "isHandleDecl ast name m \<longleftrightarrow>
     (case m of
        Some d \<Rightarrow> isVariableDeclaration (heap ast ! d) name \<or>
                  isFunctionDeclaration (heap ast ! d) name
      | None \<Rightarrow> False)"

definition visitExport :: "program \<Rightarrow> finding \<Rightarrow> addr \<Rightarrow> finding" where
  "visitExport ast f a =
     (case heap ast ! a of
        ExportNamedDeclaration specs decl \<Rightarrow>
          (case find (\<lambda>s. s_exported s = ''handle'') specs of
             Some handleSpecifier \<Rightarrow>
               (let name = (case s_local handleSpecifier of
                              Some l \<Rightarrow> l | None \<Rightarrow> s_exported handleSpecifier);
                    handleFunc = find (\<lambda>n. isFunctionDeclaration (heap ast ! n) name) (body ast);
                    handleVar = find (\<lambda>n. isVariableDeclaration (heap ast ! n) name) (body ast);
                    maybeHandleDecl =
                      (case handleFunc of
                         Some d \<Rightarrow> Some d
                       | None \<Rightarrow> (case handleVar of Some d \<Rightarrow> Some d | None \<Rightarrow> decl));
                    f' = f\<lparr>isSpecifier := True, handleName := name\<rparr>
                in if isHandleDecl ast name maybeHandleDecl
                   then f'\<lparr>exportDecl := Some a, originalHandleDecl := maybeHandleDecl\<rparr>
                   else f')
           | None \<Rightarrow>
               (if isHandleDecl ast (handleName f) decl
                then f\<lparr>exportDecl := Some a, originalHandleDecl := decl\<rparr>
                else f))
      | _ \<Rightarrow> f)"

definition locate :: "program \<Rightarrow> finding" where
  "locate ast = foldl (visitExport ast) noFinding (body ast)"


definition exportsHandle :: "program \<Rightarrow> addr \<Rightarrow> bool" where
  "exportsHandle ast a \<longleftrightarrow>
     (case heap ast ! a of
        ExportNamedDeclaration specs d \<Rightarrow>
          find (\<lambda>s. s_exported s = ''handle'') specs \<noteq> None \<or> isHandleDecl ast ''handle'' d
      | _ \<Rightarrow> False)"

definition handleExports :: "program \<Rightarrow> addr list" where
  "handleExports ast = filter (exportsHandle ast) (body ast)"

text \<open>\<^verbatim>\<open>exportDecl.declaration\<close>\<close>

definition declarationOf :: "program \<Rightarrow> addr \<Rightarrow> addr option" where
  "declarationOf ast exp =
     (case heap ast ! exp of ExportNamedDeclaration specs d \<Rightarrow> d | _ \<Rightarrow> None)"


definition isDeclNode :: "node \<Rightarrow> bool" where
  "isDeclNode n \<longleftrightarrow>
     (case n of VariableDeclaration k ds \<Rightarrow> True | FunctionDeclaration g r \<Rightarrow> True
      | _ \<Rightarrow> False)"



subsection \<open>Building the new declarations\<close>

text \<open>
  The code builds each of its declarations the same way (lines 119 to 123, 126 to 135,
  142 to 146 and 228 to 232): \<^verbatim>\<open>variables.declaration(ast, 'const', name, value)\<close>, and
  under \<^verbatim>\<open>typescript\<close> the annotation \<^verbatim>\<open>Handle\<close> on its first declarator.
\<close>

definition typedDeclaration ::
  "program \<Rightarrow> bool \<Rightarrow> string \<Rightarrow> expr \<Rightarrow> program \<times> addr" where
  "typedDeclaration ast typescript name val =
     (let (ast', d) = variables_declaration ast ''const'' name val
      in (if typescript then annotateFirst ast' d ''Handle'' else ast', d))"

text \<open>
  An element that \<^verbatim>\<open>find\<close> returned is mutated in place: the first element of the
  list that satisfies the predicate changes, the others stay.
\<close>

fun updateFirst :: "('a \<Rightarrow> bool) \<Rightarrow> ('a \<Rightarrow> 'a) \<Rightarrow> 'a list \<Rightarrow> 'a list" where
  "updateFirst P g [] = []"
| "updateFirst P g (x # xs) = (if P x then g x # xs else x # updateFirst P g xs)"

text \<open>
  \<^verbatim>\<open>ast.body = ast.body.filter((n) => n !== originalHandleDecl && n !== exportDecl &&
  n !== newDecl)\<close>, lines 170 and 207.
\<close>

definition removeDeclarations :: "program \<Rightarrow> addr \<Rightarrow> addr \<Rightarrow> addr \<Rightarrow> program" where
  "removeDeclarations ast orig exp newDecl =
     ast\<lparr>body := filter (\<lambda>n. n \<noteq> orig \<and> n \<noteq> exp \<and> n \<noteq> newDecl) (body ast)\<rparr>"

subsection \<open>No handle yet (lines 116 to 139)\<close>

text \<open>
  \<^verbatim>\<open>common.expressionFromString(newHandleName)\<close> parses the name of the new handle; the
  parser is not among the sources, and the expression of a name is its identifier.
\<close>

definition createHandle ::
  "program \<Rightarrow> bool \<Rightarrow> string \<Rightarrow> expr \<Rightarrow> string \<Rightarrow> program" where
  "createHandle ast typescript newHandleName newHandle name =
     (let (ast1, newDecl) = typedDeclaration ast typescript newHandleName newHandle;
          ast2 = push ast1 [newDecl];
          (ast3, handleDecl) =
             typedDeclaration ast2 typescript name (Identifier newHandleName)
      in namedExport ast3 name handleDecl)"

subsection \<open>The handle already calls sequence (lines 148 to 180)\<close>

definition sequenceDeclarator :: "node \<Rightarrow> string \<Rightarrow> declarator option" where
  "sequenceDeclarator n name =
     (case n of
        VariableDeclaration k ds \<Rightarrow> find (\<lambda>d. usingSequence d name) ds
      | _ \<Rightarrow> None)"

definition pushArgument :: "string \<Rightarrow> declarator \<Rightarrow> declarator" where
  "pushArgument newHandleName d =
     (case d_init d of
        Some (CallExpression c args) \<Rightarrow>
          (if list_ex (\<lambda>arg. arg = Identifier newHandleName) args then d
           else d\<lparr>d_init := Some (CallExpression c (args @ [variables_identifier newHandleName]))\<rparr>)
      | _ \<Rightarrow> d)"

definition appendToSequence ::
  "program \<Rightarrow> finding \<Rightarrow> addr \<Rightarrow> addr \<Rightarrow> addr \<Rightarrow> string \<Rightarrow> program" where
  "appendToSequence ast f orig exp newDecl newHandleName =
     (case heap ast ! orig of
        VariableDeclaration k ds \<Rightarrow>
          (let ast1 = store ast orig (VariableDeclaration k
                        (updateFirst (\<lambda>d. usingSequence d (handleName f))
                           (pushArgument newHandleName) ds));
               ast2 = removeDeclarations ast1 orig exp newDecl
           in if isSpecifier f then push ast2 [newDecl, orig, exp]
              else push ast2 [newDecl, exp])
      | _ \<Rightarrow> ast)"

subsection \<open>Wrapping the handle in a sequence (lines 182 to 235)\<close>

definition NEW_HANDLE_NAME :: string where
  "NEW_HANDLE_NAME = ''originalHandle''"

definition isIdentifier :: "expr option \<Rightarrow> bool" where
  "isIdentifier e \<longleftrightarrow> (case e of Some (Identifier n) \<Rightarrow> True | _ \<Rightarrow> False)"

text \<open>Lines 191 to 204: the renames, and whether one was made.\<close>

definition renameOriginal :: "program \<Rightarrow> addr \<Rightarrow> string \<Rightarrow> program \<times> bool" where
  "renameOriginal ast orig name =
     (let (ast1, renamed) =
        (case heap ast ! orig of
           VariableDeclaration k ds \<Rightarrow>
             (case getVariableDeclarator (heap ast ! orig) name of
                Some handle \<Rightarrow>
                  (if isIdentifier (Some (d_id handle)) \<and> \<not> isIdentifier (d_init handle)
                   then (store ast orig (VariableDeclaration k
                           (updateFirst (isHandleDeclarator name)
                              (\<lambda>d. d\<lparr>d_id := Identifier NEW_HANDLE_NAME\<rparr>) ds)), True)
                   else (ast, False))
              | None \<Rightarrow> (ast, False))
         | _ \<Rightarrow> (ast, False))
      in (case heap ast1 ! orig of
            FunctionDeclaration g r \<Rightarrow>
              (if g = Some name
               then (store ast1 orig (FunctionDeclaration (Some NEW_HANDLE_NAME) r), True)
               else (ast1, renamed))
          | _ \<Rightarrow> (ast1, renamed)))"

text \<open>
  \<^verbatim>\<open>(variableDeclarator?.init as AstTypes.Identifier).name\<close> at line 225 is reached only
  when no rename was made of a variable declaration, that is when the initialiser is an
  identifier (lemma \<open>passThrough_init\<close> below); the other cases of \<open>identifierName\<close> are
  never evaluated.
\<close>

definition identifierName :: "declarator option \<Rightarrow> string" where
  "identifierName d =
     (case d of
        Some d' \<Rightarrow> (case d_init d' of Some (Identifier n) \<Rightarrow> n | _ \<Rightarrow> [])
      | None \<Rightarrow> [])"

text \<open>Lines 206 to 235: the declarations are removed and appended again in order.\<close>

definition reappendDeclarations ::
  "program \<Rightarrow> bool \<Rightarrow> finding \<Rightarrow> addr \<Rightarrow> addr \<Rightarrow> addr \<Rightarrow> addr \<Rightarrow> bool \<Rightarrow> string \<Rightarrow> program"
  where
  "reappendDeclarations ast typescript f orig exp newDecl newHandleDecl renameRequired
     newHandleName =
     (let ast4 = removeDeclarations ast orig exp newDecl;
          ast5 = (if isSpecifier f then push ast4 [orig, newDecl, newHandleDecl, exp]
                  else ast4)
      in case declarationOf ast5 exp of
           Some d \<Rightarrow>
             (if renameRequired
              then namedExport (push ast5 [d, newDecl]) (handleName f) newHandleDecl
              else if isVariableDeclaration (heap ast5 ! orig) (handleName f)
              then (let variableDeclarator =
                          getVariableDeclarator (heap ast5 ! orig) (handleName f);
                        sequenceCall = callByIdentifier ''sequence''
                          [identifierName variableDeclarator, newHandleName];
                        (ast6, newHandleDecl') =
                          typedDeclaration ast5 typescript (handleName f) sequenceCall;
                        ast7 = push ast6 [newDecl]
                    in namedExport ast7 (handleName f) newHandleDecl')
              else ast5)
         | None \<Rightarrow> ast5)"

text \<open>Lines 185 to 204, and then the lines above.\<close>

definition wrapInSequence ::
  "program \<Rightarrow> bool \<Rightarrow> finding \<Rightarrow> addr \<Rightarrow> addr \<Rightarrow> addr \<Rightarrow> string \<Rightarrow> program" where
  "wrapInSequence ast typescript f orig exp newDecl newHandleName =
     (let sequenceCall = callByIdentifier ''sequence'' [NEW_HANDLE_NAME, newHandleName];
          (ast1, newHandleDecl) =
             variables_declaration ast ''const'' (handleName f) sequenceCall;
          ast2 = addNamed ast1 ''@sveltejs/kit/hooks'' [(''sequence'', ''sequence'')] False;
          (ast3, renameRequired) = renameOriginal ast2 orig (handleName f)
      in reappendDeclarations ast3 typescript f orig exp newDecl newHandleDecl
           renameRequired newHandleName)"

subsection \<open>addHooksHandle\<close>

text \<open>
  Lines 141 to 235, for the export and the declaration that the walk found. The block
  of lines 161 to 180 ends without a \<^verbatim>\<open>return\<close>, so the statements from line 185 on
  run after it as well.
\<close>

definition mergeHandle ::
  "program \<Rightarrow> bool \<Rightarrow> string \<Rightarrow> expr \<Rightarrow> finding \<Rightarrow> addr \<Rightarrow> addr \<Rightarrow> program" where
  "mergeHandle ast typescript newHandleName newHandle f orig exp =
     (let (ast2, newDecl) = typedDeclaration ast typescript newHandleName newHandle;
          ast3 = (if sequenceDeclarator (heap ast2 ! orig) (handleName f) \<noteq> None
                  then appendToSequence ast2 f orig exp newDecl newHandleName
                  else ast2)
      in wrapInSequence ast3 typescript f orig exp newDecl newHandleName)"

text \<open>
  \<^verbatim>\<open>handleContent\<close> is the new fragment as \<^verbatim>\<open>common.expressionFromString\<close> returns it:
  the parser is not among the sources.
\<close>

definition addHooksHandle :: "program \<Rightarrow> bool \<Rightarrow> string \<Rightarrow> expr \<Rightarrow> program" where
  "addHooksHandle ast typescript newHandleName handleContent =
     (let ast1 = (if typescript
                  then addNamed ast ''@sveltejs/kit'' [(''Handle'', ''Handle'')] True
                  else ast);
          f = locate ast1;
          newHandle = handleContent
      in if hasNode ast1 newHandle then ast1
         else (case (originalHandleDecl f, exportDecl f) of
                 (Some orig, Some exp) \<Rightarrow>
                   mergeHandle ast1 typescript newHandleName newHandle f orig exp
               | _ \<Rightarrow> createHandle ast1 typescript newHandleName newHandle (handleName f)))"

subsection \<open>Frames\<close>

text \<open>
  Two stores hold the same declarations when the second has every node of the first,
  but for the specifiers of its import statements. The annotation of a declaration the
  code builds is \<^verbatim>\<open>Handle\<close> under \<^verbatim>\<open>typescript\<close>.
\<close>

definition sameDeclarations :: "node list \<Rightarrow> node list \<Rightarrow> bool" where
  "sameDeclarations h h' \<longleftrightarrow>
     length h \<le> length h' \<and>
     (\<forall>a < length h. h' ! a = h ! a \<or>
        (\<exists>s t specs specs'. h ! a = ImportDeclaration s t specs \<and>
                             h' ! a = ImportDeclaration s t specs'))"

text \<open>
  What a merge leaves of a store \<open>h\<close>: every node but the one at \<open>orig\<close> is as it was, or
  is an import statement that gained specifiers, and the node at \<open>orig\<close> is still a
  declaration.
\<close>

definition grownImport :: "node \<Rightarrow> node \<Rightarrow> bool" where
  "grownImport n n' \<longleftrightarrow>
     (\<exists>s t specs specs'. n = ImportDeclaration s t specs \<and>
        n' = ImportDeclaration s t specs' \<and> set specs \<subseteq> set specs')"


text \<open>The filter of lines 170 and 207.\<close>

definition kept :: "addr \<Rightarrow> addr \<Rightarrow> addr \<Rightarrow> addr \<Rightarrow> bool" where
  "kept orig exp newDecl n \<longleftrightarrow> n \<noteq> orig \<and> n \<noteq> exp \<and> n \<noteq> newDecl"




text \<open>A program without one of its statements.\<close>

definition withoutStatement :: "program \<Rightarrow> addr \<Rightarrow> program" where
  "withoutStatement ast e = ast\<lparr>body := filter (\<lambda>n. n \<noteq> e) (body ast)\<rparr>"


section \<open>The ambient declarations of app.d.ts\<close>

text \<open>
  \<^verbatim>\<open>addGlobalAppInterface\<close> walks below the \<^verbatim>\<open>declare global\<close> block, appends to the
  blocks it finds and returns a node. It removes and reorders nothing, so a node is
  named by its path: the body of a module declaration is its child 0, the statements
  of a block are its children in order.
\<close>

datatype tsname = IdentifierName string | StringLiteralName string

datatype tsnode =
    TSModuleDeclaration tsname bool bool "tsnode option"
  | TSModuleBlock "tsnode list"
  | TSInterfaceDeclaration tsname "string list"
  | TSOtherNode string

text \<open>
  \<^verbatim>\<open>TSModuleDeclaration id global declare body\<close>; \<^verbatim>\<open>TSInterfaceDeclaration id members\<close>.
\<close>

type_synonym path = "nat list"


fun nodeAt :: "path \<Rightarrow> tsnode \<Rightarrow> tsnode option" where
  "nodeAt [] n = Some n"
| "nodeAt (k # p) (TSModuleDeclaration i g d (Some b)) = (if k = 0 then nodeAt p b else None)"
| "nodeAt (k # p) (TSModuleBlock ns) = (if k < length ns then nodeAt p (ns ! k) else None)"
| "nodeAt (k # p) n = None"

fun modify :: "path \<Rightarrow> (tsnode \<Rightarrow> tsnode) \<Rightarrow> tsnode \<Rightarrow> tsnode" where
  "modify [] f n = f n"
| "modify (k # p) f (TSModuleDeclaration i g d (Some b)) =
     (if k = 0 then TSModuleDeclaration i g d (Some (modify p f b))
      else TSModuleDeclaration i g d (Some b))"
| "modify (k # p) f (TSModuleBlock ns) =
     (if k < length ns then TSModuleBlock (ns[k := modify p f (ns ! k)])
      else TSModuleBlock ns)"
| "modify (k # p) f n = n"

text \<open>\<^verbatim>\<open>decl.body.body.push(node)\<close> on a module declaration whose body is a block.\<close>

fun pushChild :: "tsnode \<Rightarrow> tsnode \<Rightarrow> tsnode" where
  "pushChild new (TSModuleDeclaration i g d (Some (TSModuleBlock ns))) =
     TSModuleDeclaration i g d (Some (TSModuleBlock (ns @ [new])))"
| "pushChild new n = n"

text \<open>
  The walk of lines 25 to 37 calls the \<^verbatim>\<open>TSModuleDeclaration\<close> visitor, which goes on
  below the node (\<^verbatim>\<open>next()\<close>), and the \<^verbatim>\<open>TSInterfaceDeclaration\<close> visitor, which does
  not; a block has no visitor and is walked through. \<open>walk\<close> lists the calls in order,
  each with the path of its node and the name the visitor compares.
\<close>

datatype visited = ModuleAt path tsname | InterfaceAt path tsname

fun walk :: "path \<Rightarrow> tsnode \<Rightarrow> visited list"
  and walkChildren :: "path \<Rightarrow> nat \<Rightarrow> tsnode list \<Rightarrow> visited list" where
  "walk p (TSModuleDeclaration i g d b) =
     ModuleAt p i # (case b of None \<Rightarrow> [] | Some n \<Rightarrow> walk (p @ [0]) n)"
| "walk p (TSModuleBlock ns) = walkChildren p 0 ns"
| "walk p (TSInterfaceDeclaration i ms) = [InterfaceAt p i]"
| "walk p (TSOtherNode s) = []"
| "walkChildren p k [] = []"
| "walkChildren p k (n # ns) = walk (p @ [k]) n @ walkChildren p (Suc k) ns"




fun isGlobalDecl :: "tsnode \<Rightarrow> bool" where
  "isGlobalDecl (TSModuleDeclaration i g d b) = (g \<and> d)"
| "isGlobalDecl n = False"

fun findIndex :: "('a \<Rightarrow> bool) \<Rightarrow> 'a list \<Rightarrow> nat option" where
  "findIndex P [] = None"
| "findIndex P (x # xs) = (if P x then Some 0 else map_option Suc (findIndex P xs))"


definition namespaceApp :: tsnode where
  "namespaceApp =
     TSModuleDeclaration (IdentifierName ''App'') False False (Some (TSModuleBlock []))"

definition interfaceNamed :: "string \<Rightarrow> tsnode" where
  "interfaceNamed name = TSInterfaceDeclaration (IdentifierName name) []"








section \<open>Sample files\<close>



text \<open>The new handle of the samples: \<^verbatim>\<open>async ({ event, resolve }) => resolve(event)\<close>.\<close>

definition sampleHandle :: expr where
  "sampleHandle = OtherExpression ''async ({ event, resolve }) => resolve(event)''"

text \<open>\<^verbatim>\<open>export const handle = sequence(a, b);\<close>\<close>

definition sequenceFile :: program where
  "sequenceFile =
     \<lparr>heap = [VariableDeclaration ''const''
                 [\<lparr>d_id = Identifier ''handle'',
                   d_init = Some (CallExpression (Identifier ''sequence'')
                                    [Identifier ''a'', Identifier ''b'']),
                   d_typeAnnotation = None\<rparr>],
               ExportNamedDeclaration [] (Some 0)],
      body = [1]\<rparr>"

text \<open>\<^verbatim>\<open>const first = async ({ event, resolve }) => resolve(event);\<close>, and no export.\<close>

definition fragmentFile :: program where
  "fragmentFile =
     \<lparr>heap = [VariableDeclaration ''const''
                 [\<lparr>d_id = Identifier ''first'', d_init = Some sampleHandle,
                   d_typeAnnotation = None\<rparr>]],
      body = [0]\<rparr>"


text \<open>
  \<^verbatim>\<open>const first = async ({ event, resolve }) => resolve(event);
  export const handle = otherHandle;\<close>
\<close>

definition passThroughFragmentFile :: program where
  "passThroughFragmentFile =
     \<lparr>heap = [VariableDeclaration ''const''
                 [\<lparr>d_id = Identifier ''first'', d_init = Some sampleHandle,
                   d_typeAnnotation = None\<rparr>],
               VariableDeclaration ''const''
                 [\<lparr>d_id = Identifier ''handle'', d_init = Some (Identifier ''otherHandle''),
                   d_typeAnnotation = None\<rparr>],
               ExportNamedDeclaration [] (Some 1)],
      body = [0, 2]\<rparr>"

text \<open>\<^verbatim>\<open>function foo() {}  export { foo as handle };\<close>\<close>

definition aliasFile :: program where
  "aliasFile =
     \<lparr>heap = [FunctionDeclaration (Some ''foo'') [],
               ExportNamedDeclaration [\<lparr>s_local = Some ''foo'', s_exported = ''handle''\<rparr>] None],
      body = [0, 1]\<rparr>"



text \<open>
  \<^verbatim>\<open>function foo() {...}  export { foo as handle };\<close> for any name and any function.
\<close>

definition aliasShape :: "string \<Rightarrow> expr list \<Rightarrow> program" where
  "aliasShape foo rest =
     \<lparr>heap = [FunctionDeclaration (Some foo) rest,
               ExportNamedDeclaration [\<lparr>s_local = Some foo, s_exported = ''handle''\<rparr>] None],
      body = [0, 1]\<rparr>"


section \<open>Properties of the hook-handle merge\<close>

text \<open>The equations that evaluate the merge on a given file.\<close>

lemmas model_defs =
  addHooksHandle_def locate_def visitExport_def noFinding_def isHandleDecl_def
  isVariableDeclaration_def isFunctionDeclaration_def getVariableDeclarator_def
  isHandleDeclarator_def usingSequence_def hasNode_def serializeScript_def
  printStatement_def printDeclaration_def declaratorExpressions_def
  typedDeclaration_def variables_declaration_def alloc_def push_def store_def
  annotateFirst_def typeAnnotateDeclarator_def namedExport_def addNamed_def isImportOf_def
  createHandle_def sequenceDeclarator_def pushArgument_def appendToSequence_def
  removeDeclarations_def renameOriginal_def wrapInSequence_def reappendDeclarations_def
  mergeHandle_def
  declarationOf_def identifierName_def isIdentifier_def callByIdentifier_def
  variables_identifier_def NEW_HANDLE_NAME_def

subsection \<open>The last match of a walk\<close>

lemma lastMatch_Nil [simp]: "lastMatch P [] = None"
  by (simp add: lastMatch_def)

lemma lastMatch_alt:
  "lastMatch P xs = (if filter P xs = [] then None else Some (last (filter P xs)))"
  by (cases "filter P xs") (simp_all add: lastMatch_def)

lemma lastMatch_snoc [simp]:
  "lastMatch P (xs @ [x]) = (if P x then Some x else lastMatch P xs)"
  by (simp add: lastMatch_alt)

subsection \<open>The walk over exports that have no specifier for the handle\<close>








subsection \<open>Well-formed programs\<close>

lemma wf_body: "wf_program ast \<Longrightarrow> a \<in> set (body ast) \<Longrightarrow> a < length (heap ast)"
  by (simp add: wf_program_def list_all_iff)

lemma wf_decl:
  "wf_program ast \<Longrightarrow> a < length (heap ast) \<Longrightarrow>
   heap ast ! a = ExportNamedDeclaration specs (Some d) \<Longrightarrow> d < length (heap ast)"
  by (force simp: wf_program_def list_all_iff dest!: nth_mem)


subsection \<open>Printing after a change of the store\<close>



subsection \<open>The program that createHandle returns\<close>






subsection \<open>The two cases of addNamed\<close>

lemma addNamed_cases:
  obtains (merged) a specs where
      "find (\<lambda>a. isImportOf s t (heap ast ! a)) (body ast) = Some a"
      "heap ast ! a = ImportDeclaration s t specs"
      "addNamed ast s b t =
         ast\<lparr>heap := (heap ast)[a := ImportDeclaration s t (specs @ filter (\<lambda>x. x \<notin> set specs) b)]\<rparr>"
  | (added)
      "find (\<lambda>a. isImportOf s t (heap ast ! a)) (body ast) = None"
      "addNamed ast s b t =
         ast\<lparr>heap := heap ast @ [ImportDeclaration s t b], body := length (heap ast) # body ast\<rparr>"
proof (cases "find (\<lambda>a. isImportOf s t (heap ast ! a)) (body ast)")
  case None
  then show ?thesis
    by (intro added) (simp_all add: addNamed_def alloc_def)
next
  case (Some a)
  then have "isImportOf s t (heap ast ! a)" by (auto simp: find_Some_iff)
  then obtain specs where n: "heap ast ! a = ImportDeclaration s t specs"
    by (auto simp: isImportOf_def split: node.splits)
  with Some show ?thesis
    by (intro merged [of a specs]) (simp_all add: addNamed_def store_def)
qed



lemma sameDeclarations_addNamed:
  "sameDeclarations (heap ast) (heap (addNamed ast s b t))"
proof (cases rule: addNamed_cases [where ast = ast and s = s and t = t and b = b])
  case (merged a specs)
  have "(heap ast)[a := n] ! c = heap ast ! c \<or>
        (\<exists>specs'. heap ast ! c = ImportDeclaration s t specs \<and> (heap ast)[a := n] ! c = n)"
    if "c < length (heap ast)" for c n
    using that merged(2) by (cases "c = a") simp_all
  with merged show ?thesis
    by (fastforce simp: sameDeclarations_def)
next
  case added
  then show ?thesis by (simp add: sameDeclarations_def nth_append)
qed



lemma statementExpressions_sameDeclarations:
  assumes "sameDeclarations h h'" "a < length h"
    and "\<And>specs d. h ! a = ExportNamedDeclaration specs (Some d) \<Longrightarrow> d < length h"
  shows "statementExpressions (printStatement h' a) = statementExpressions (printStatement h a)"
proof -
  from assms(1,2) consider "h' ! a = h ! a"
    | s t specs specs' where "h ! a = ImportDeclaration s t specs"
        "h' ! a = ImportDeclaration s t specs'"
    by (auto simp: sameDeclarations_def)
  then show ?thesis
  proof cases
    case 1
    show ?thesis
    proof (cases "h ! a")
      case (ExportNamedDeclaration specs d)
      show ?thesis
      proof (cases d)
        case None
        with 1 ExportNamedDeclaration show ?thesis by (simp add: printStatement_def)
      next
        case (Some d')
        with assms(3) ExportNamedDeclaration have d: "d' < length h" by simp
        with assms(1) consider "h' ! d' = h ! d'"
          | s t specs specs' where "h ! d' = ImportDeclaration s t specs"
              "h' ! d' = ImportDeclaration s t specs'"
          by (auto simp: sameDeclarations_def)
        then show ?thesis
          using 1 ExportNamedDeclaration Some
          by cases (simp_all add: printStatement_def printDeclaration_def)
      qed
    qed (use 1 in \<open>simp_all add: printStatement_def\<close>)
  next
    case 2
    then show ?thesis by (simp add: printStatement_def printDeclaration_def)
  qed
qed

lemma hasNode_addNamed:
  assumes "wf_program ast"
  shows "hasNode (addNamed ast s b t) E = hasNode ast E"
proof -
  let ?h' = "heap (addNamed ast s b t)"
  have old: "map (\<lambda>a. statementExpressions (printStatement ?h' a)) (body ast) =
             map (\<lambda>a. statementExpressions (printStatement (heap ast) a)) (body ast)"
    by (rule map_cong [OF refl], rule statementExpressions_sameDeclarations
        [OF sameDeclarations_addNamed])
       (auto intro: wf_body [OF assms] wf_decl [OF assms])
  show ?thesis
  proof (cases rule: addNamed_cases [where ast = ast and s = s and t = t and b = b])
    case (merged a specs)
    with old show ?thesis
      by (simp add: hasNode_def serializeScript_def comp_def)
  next
    case added
    with old show ?thesis
      by (simp add: hasNode_def serializeScript_def comp_def)
         (simp add: printStatement_def printDeclaration_def)
  qed
qed



subsection \<open>The walk after addNamed\<close>













text \<open>
  C10. A call whose new handle's expression is already in the tree is a no-op at line
  114. With \<^verbatim>\<open>typescript\<close> false it returns the tree as it was. With \<^verbatim>\<open>typescript\<close>
  true the import of the type \<^verbatim>\<open>Handle\<close> has been merged in before the check, the call
  returns the tree with that import, and on the sample file this changes what is
  printed.
\<close>

theorem addHooksHandle_noop:
  "(hasNode ast newHandle \<longrightarrow>
      addHooksHandle ast False newHandleName newHandle = ast) \<and>
   (wf_program ast \<and> hasNode ast newHandle \<longrightarrow>
      addHooksHandle ast True newHandleName newHandle =
        addNamed ast ''@sveltejs/kit'' [(''Handle'', ''Handle'')] True) \<and>
   serializeScript (addHooksHandle fragmentFile True newHandleName sampleHandle) \<noteq>
     serializeScript fragmentFile"
proof (intro conjI impI)
  assume "hasNode ast newHandle"
  then show "addHooksHandle ast False newHandleName newHandle = ast"
    by (simp add: addHooksHandle_def)
next
  assume "wf_program ast \<and> hasNode ast newHandle"
  then show "addHooksHandle ast True newHandleName newHandle =
        addNamed ast ''@sveltejs/kit'' [(''Handle'', ''Handle'')] True"
    by (simp add: addHooksHandle_def hasNode_addNamed)
next
  show "serializeScript (addHooksHandle fragmentFile True newHandleName sampleHandle) \<noteq>
     serializeScript fragmentFile"
    by (simp add: model_defs fragmentFile_def sampleHandle_def Let_def)
qed

theorem addHooksHandle_noop_witness:
  "wf_program fragmentFile \<and> hasNode fragmentFile sampleHandle \<and>
   addHooksHandle fragmentFile False ''c'' sampleHandle = fragmentFile \<and>
   addHooksHandle fragmentFile True ''c'' sampleHandle =
     addNamed fragmentFile ''@sveltejs/kit'' [(''Handle'', ''Handle'')] True \<and>
   serializeScript (addHooksHandle fragmentFile True ''c'' sampleHandle) =
     SImportDeclaration ''@sveltejs/kit'' True [(''Handle'', ''Handle'')] #
     serializeScript fragmentFile"
proof -
  have w: "wf_program fragmentFile" by (simp add: wf_program_def fragmentFile_def)
  have h: "hasNode fragmentFile sampleHandle"
    by (simp add: model_defs fragmentFile_def sampleHandle_def)
  have p: "serializeScript (addNamed fragmentFile ''@sveltejs/kit'' [(''Handle'', ''Handle'')] True) =
     SImportDeclaration ''@sveltejs/kit'' True [(''Handle'', ''Handle'')] #
     serializeScript fragmentFile"
    by (simp add: model_defs fragmentFile_def)
  from addHooksHandle_noop [of fragmentFile sampleHandle "''c''"] w h p
  show ?thesis by simp
qed

subsection \<open>The merge on the shapes of the spec\<close>


text \<open>
  C2 fails on the code. On \<^verbatim>\<open>export const handle = sequence(a, b);\<close> with the new handle
  \<^verbatim>\<open>c\<close> the argument is appended, and then, the block of lines 161 to 180 having no
  \<^verbatim>\<open>return\<close>, the declaration is renamed to \<^verbatim>\<open>originalHandle\<close> and wrapped in a second
  call of \<^verbatim>\<open>sequence\<close>.
\<close>

theorem addHooksHandle_sequence_wrapped:
  "serializeScript (addHooksHandle sequenceFile False ''c'' sampleHandle) =
     [SImportDeclaration ''@sveltejs/kit/hooks'' False [(''sequence'', ''sequence'')],
      SVariableDeclaration ''const''
        [\<lparr>d_id = Identifier ''originalHandle'',
          d_init = Some (CallExpression (Identifier ''sequence'')
                     [Identifier ''a'', Identifier ''b'', Identifier ''c'']),
          d_typeAnnotation = None\<rparr>],
      SVariableDeclaration ''const''
        [\<lparr>d_id = Identifier ''c'', d_init = Some sampleHandle, d_typeAnnotation = None\<rparr>],
      SExportNamedDeclaration []
        (Some (SVariableDeclaration ''const''
           [\<lparr>d_id = Identifier ''handle'',
             d_init = Some (CallExpression (Identifier ''sequence'')
                        [Identifier ''originalHandle'', Identifier ''c'']),
             d_typeAnnotation = None\<rparr>]))]"
  by (simp add: model_defs sequenceFile_def sampleHandle_def Let_def)

text \<open>
  C5, as amended. For every tree \<^verbatim>\<open>function foo() {...}  export { foo as handle };\<close> and
  every new handle whose expression is not in the tree, \<^verbatim>\<open>addHooksHandle\<close> renames the
  function to \<^verbatim>\<open>originalHandle\<close>, declares the new handle, declares the composition under
  the local name, \<^verbatim>\<open>const foo = sequence(originalHandle, c);\<close>, and keeps the export
  statement \<^verbatim>\<open>export { foo as handle };\<close> as the last statement; the import of \<^verbatim>\<open>sequence\<close>
  is added, and under \<^verbatim>\<open>typescript\<close> the import of the type and the annotation of the new
  handle.
\<close>

theorem addHooksHandle_alias:
  assumes "\<not> hasNode (aliasShape foo rest) newHandle"
  shows "serializeScript (addHooksHandle (aliasShape foo rest) typescript newHandleName newHandle) =
     SImportDeclaration ''@sveltejs/kit/hooks'' False [(''sequence'', ''sequence'')] #
     (if typescript
      then [SImportDeclaration ''@sveltejs/kit'' True [(''Handle'', ''Handle'')]] else []) @
     [SFunctionDeclaration (Some ''originalHandle'') rest,
      SVariableDeclaration ''const''
        [\<lparr>d_id = Identifier newHandleName, d_init = Some newHandle,
          d_typeAnnotation = (if typescript then Some ''Handle'' else None)\<rparr>],
      SVariableDeclaration ''const''
        [\<lparr>d_id = Identifier foo,
          d_init = Some (CallExpression (Identifier ''sequence'')
                     [Identifier ''originalHandle'', Identifier newHandleName]),
          d_typeAnnotation = None\<rparr>],
      SExportNamedDeclaration [\<lparr>s_local = Some foo, s_exported = ''handle''\<rparr>] None]"
  using assms
  by (cases typescript) (simp_all add: model_defs aliasShape_def Let_def)

theorem addHooksHandle_alias_witness:
  "\<not> hasNode (aliasShape ''foo'' []) sampleHandle \<and>
   serializeScript (addHooksHandle (aliasShape ''foo'' []) False ''c'' sampleHandle) =
     [SImportDeclaration ''@sveltejs/kit/hooks'' False [(''sequence'', ''sequence'')],
      SFunctionDeclaration (Some ''originalHandle'') [],
      SVariableDeclaration ''const''
        [\<lparr>d_id = Identifier ''c'', d_init = Some sampleHandle, d_typeAnnotation = None\<rparr>],
      SVariableDeclaration ''const''
        [\<lparr>d_id = Identifier ''foo'',
          d_init = Some (CallExpression (Identifier ''sequence'')
                     [Identifier ''originalHandle'', Identifier ''c'']),
          d_typeAnnotation = None\<rparr>],
      SExportNamedDeclaration [\<lparr>s_local = Some ''foo'', s_exported = ''handle''\<rparr>] None]"
proof -
  have h: "\<not> hasNode (aliasShape ''foo'' []) sampleHandle"
    by (simp add: model_defs aliasShape_def)
  from addHooksHandle_alias [OF h, of False "''c''"] h show ?thesis by simp
qed

text \<open>
  C5 as stated fails on \<^verbatim>\<open>function foo() {}  export { foo as handle };\<close>: no statement
  of the result is \<^verbatim>\<open>export const handle = sequence(originalHandle, c);\<close>.
\<close>

theorem addHooksHandle_alias_counterexample:
  "SExportNamedDeclaration []
     (Some (SVariableDeclaration ''const''
        [\<lparr>d_id = Identifier ''handle'',
          d_init = Some (CallExpression (Identifier ''sequence'')
                     [Identifier ''originalHandle'', Identifier ''c'']),
          d_typeAnnotation = None\<rparr>]))
   \<notin> set (serializeScript (addHooksHandle aliasFile False ''c'' sampleHandle))"
  by (simp add: model_defs aliasFile_def sampleHandle_def Let_def)


section \<open>The merge into an existing handle\<close>


subsection \<open>What the walk returns\<close>





subsection \<open>Frames\<close>


lemma grownImport_not_decl: "grownImport n n' \<Longrightarrow> \<not> isDeclNode n \<and> \<not> isDeclNode n'"
  by (auto simp: grownImport_def isDeclNode_def)











subsection \<open>Closed forms\<close>









lemma pushArgument_id [simp]: "d_id (pushArgument c d) = d_id d"
  by (simp add: pushArgument_def split: option.splits expr.splits)


lemma not_kept [simp]:
  "\<not> kept orig e nd orig" "\<not> kept orig e nd e" "\<not> kept orig e nd nd"
  by (simp_all add: kept_def)





subsection \<open>The import of the type\<close>











subsection \<open>The new declaration is found afterwards\<close>






subsection \<open>A second run changes nothing\<close>






section \<open>Properties of the ambient declarations\<close>


lemma findIndex_None: "findIndex P xs = None \<longleftrightarrow> (\<forall>x\<in>set xs. \<not> P x)"
  by (induction xs) auto






subsection \<open>The walk after a push\<close>

lemma walkChildren_append:
  "walkChildren p k (ns @ ms) = walkChildren p k ns @ walkChildren p (k + length ns) ms"
  by (induction ns arbitrary: k) simp_all

lemma walk_pushChild:
  "walk p (pushChild new (TSModuleDeclaration i g d (Some (TSModuleBlock ns)))) =
     walk p (TSModuleDeclaration i g d (Some (TSModuleBlock ns))) @ walk (p @ [0, length ns]) new"
  by (simp add: walkChildren_append)





lemma isGlobalDecl_modify [simp]:
  "isGlobalDecl (modify q (pushChild new) n) = isGlobalDecl n"
  by (cases "(q, n)" rule: nodeAt.cases; cases "(new, n)" rule: pushChild.cases) auto


subsection \<open>The second call\<close>







lemma walk_interfaceNamed [simp]:
  "walk p (interfaceNamed name) = [InterfaceAt p (IdentifierName name)]"
  by (simp add: interfaceNamed_def)

lemma walk_namespaceApp [simp]:
  "walk p namespaceApp = [ModuleAt p (IdentifierName ''App'')]"
  by (simp add: namespaceApp_def)




lemma isGlobalDecl_pushChild [simp]: "isGlobalDecl (pushChild new n) = isGlobalDecl n"
  using isGlobalDecl_modify [of "[]" new n] by simp







end
